theory Spec2Isabelle
  imports Main "HOL-Library.Sublist"
begin

section \<open>JavaScript strings\<close>

text \<open>
  A JavaScript string is modelled by the bytes of its UTF-8 encoding, as the literals stand
  in the source files. The controller never measures a string; it only concatenates,
  compares, trims and searches, and on well-formed text these agree on UTF-8 bytes and on
  UTF-16 code units.

  \<open>toLowerCase\<close> lowers the letters A to Z and leaves every other byte alone. The
  controller uses the lowered text only to look for seven ASCII keywords, and no character
  outside ASCII lowers to a run of letters that could complete one of them, so the keyword
  tests agree with the JavaScript ones.
\<close>

definition lower_char :: "char \<Rightarrow> char" where
  "lower_char c =
     (case map_of (zip ''ABCDEFGHIJKLMNOPQRSTUVWXYZ'' ''abcdefghijklmnopqrstuvwxyz'') c of
        None \<Rightarrow> c
      | Some d \<Rightarrow> d)"

definition toLowerCase :: "string \<Rightarrow> string" where
  "toLowerCase s = map lower_char s"

text \<open>\<open>String.prototype.includes\<close>: the key occurs as a contiguous run.\<close>

fun js_includes :: "string \<Rightarrow> string \<Rightarrow> bool" where
  "js_includes [] k = (k = [])"
| "js_includes (c # cs) k = (prefix k (c # cs) \<or> js_includes cs k)"

text \<open>
  \<open>String.prototype.trim\<close> removes white space and line terminators from both ends:
  TAB, LF, VT, FF, CR, SP, and (in UTF-8) U+00A0, U+1680, U+2000 to U+200A, U+2028, U+2029,
  U+202F, U+205F, U+3000 and U+FEFF.
\<close>

definition js_whitespace :: "string list" where
  "js_whitespace =
     [[CHR 0x09], [CHR 0x0A], [CHR 0x0B], [CHR 0x0C], [CHR 0x0D], [CHR 0x20],
      [CHR 0xC2, CHR 0xA0],
      [CHR 0xE1, CHR 0x9A, CHR 0x80],
      [CHR 0xE2, CHR 0x80, CHR 0x80], [CHR 0xE2, CHR 0x80, CHR 0x81],
      [CHR 0xE2, CHR 0x80, CHR 0x82], [CHR 0xE2, CHR 0x80, CHR 0x83],
      [CHR 0xE2, CHR 0x80, CHR 0x84], [CHR 0xE2, CHR 0x80, CHR 0x85],
      [CHR 0xE2, CHR 0x80, CHR 0x86], [CHR 0xE2, CHR 0x80, CHR 0x87],
      [CHR 0xE2, CHR 0x80, CHR 0x88], [CHR 0xE2, CHR 0x80, CHR 0x89],
      [CHR 0xE2, CHR 0x80, CHR 0x8A],
      [CHR 0xE2, CHR 0x80, CHR 0xA8], [CHR 0xE2, CHR 0x80, CHR 0xA9],
      [CHR 0xE2, CHR 0x80, CHR 0xAF],
      [CHR 0xE2, CHR 0x81, CHR 0x9F],
      [CHR 0xE3, CHR 0x80, CHR 0x80],
      [CHR 0xEF, CHR 0xBB, CHR 0xBF]]"

function stripWs :: "string list \<Rightarrow> string \<Rightarrow> string" where
  "stripWs ws s =
     (case List.find (\<lambda>w. w \<noteq> [] \<and> prefix w s) ws of
        None \<Rightarrow> s
      | Some w \<Rightarrow> stripWs ws (drop (length w) s))"
  by pat_completeness auto
termination
proof (relation "measure (\<lambda>(ws, s). length s)")
  show "wf (measure (\<lambda>(ws, s). length s))" by simp
next
  fix ws :: "string list" and s w :: string
  assume "List.find (\<lambda>w. w \<noteq> [] \<and> prefix w s) ws = Some w"
  then have "w \<noteq> []" and "prefix w s"
    by (auto simp: find_Some_iff)
  then have "s \<noteq> []" by auto
  with \<open>w \<noteq> []\<close> show "((ws, drop (length w) s), (ws, s)) \<in> measure (\<lambda>(ws, s). length s)"
    by simp
qed

declare stripWs.simps [simp del]

definition trim :: "string \<Rightarrow> string" where
  "trim s = rev (stripWs (map rev js_whitespace) (rev (stripWs js_whitespace s)))"

text \<open>\<open>Array.prototype.join\<close> on an array of strings.\<close>

fun join :: "string \<Rightarrow> string list \<Rightarrow> string" where
  "join sep [] = []"
| "join sep [x] = x"
| "join sep (x # y # ys) = x @ sep @ join sep (y # ys)"

text \<open>
  \<open>a || b\<close> where \<open>a\<close> is a string that may be missing: \<open>undefined\<close>, \<open>null\<close> and the
  empty string are falsy.
\<close>

definition or_else :: "string option \<Rightarrow> string \<Rightarrow> string" where
  "or_else a b = (case a of None \<Rightarrow> b | Some x \<Rightarrow> if x = [] then b else x)"

text \<open>A number inside a template literal: its decimal digits.\<close>

fun showNat :: "nat \<Rightarrow> string" where
  "showNat n =
     (if n < 10 then [char_of (48 + n)] else showNat (n div 10) @ [char_of (48 + n mod 10)])"

declare showNat.simps [simp del]

section \<open>Data model of \<open>MobileVideoEditor\<close>\<close>

datatype role = User | AI

record message =
  role :: role
  content :: string

datatype phase = upload_video | get_prompt | review

text \<open>
  A \<open>Blob\<close> is opaque to the controller: it reads only the \<open>name\<close> a \<open>File\<close> carries
  (a \<open>Blob\<close> read from a response has none).
\<close>

datatype blob = Blob (blob_name: "string option") (blob_bytes: "nat list")

type_synonym url = nat

record entry =
  blob :: blob
  url :: url

text \<open>Of a song the controller reads \<open>title\<close>, \<open>artist\<close> and \<open>public_url\<close>.\<close>

record song =
  title :: string
  artist :: string
  public_url :: string

datatype log_entry = console_error string | console_warn string

text \<open>The multipart bodies posted to \<open>/api/edit\<close> and \<open>/api/add_music\<close>.\<close>

datatype request =
    EditRequest (video: blob) (filename: string) (user_prompt: string)
  | MixRequest (video: blob) (filename: string) (song_url: string)

text \<open>
  What a handler reads of the state is what the render that created it saw: the constants
  \<open>conversationState\<close>, \<open>history\<close> and \<open>promptHistory\<close> of that render. What it writes
  goes to the state as it is when it runs.
\<close>

record closure =
  seenState :: phase
  seenHistory :: "entry list"
  seenPromptHistory :: "string list"

text \<open>
  The hooks of the component, and the parts of the browser the controller writes: the
  object URLs that are live (\<open>URL.createObjectURL\<close> / \<open>URL.revokeObjectURL\<close>), the source of
  the shared audio element, the console, and the texts posted to \<open>/api/tts\<close>.
  \<open>recognitionClosure\<close> is what the \<open>onresult\<close> handler of the speech recogniser saw when
  the effect installed it.
\<close>

record session =
  messages :: "message list"
  conversationState :: phase
  history :: "entry list"
  promptHistory :: "string list"
  listening :: bool
  uploading :: bool
  addingSong :: bool
  addingSongTitle :: "string option"
  error :: "string option"
  inputText :: string
  sheetOpen :: bool
  trendingOpen :: bool
  objectUrls :: "url list"
  urlCounter :: nat
  audioSrc :: "url option"
  console :: "log_entry list"
  ttsRequests :: "string list"
  recognitionClosure :: closure

definition closureOf :: "session \<Rightarrow> closure" where
  "closureOf s =
     \<lparr>seenState = conversationState s, seenHistory = history s,
      seenPromptHistory = promptHistory s\<rparr>"

definition initial :: session where
  "initial =
     \<lparr>messages = [], conversationState = upload_video, history = [], promptHistory = [],
      listening = False, uploading = False, addingSong = False, addingSongTitle = None,
      error = None, inputText = [], sheetOpen = False, trendingOpen = False,
      objectUrls = [], urlCounter = 0, audioSrc = None, console = [], ttsRequests = [],
      recognitionClosure =
        \<lparr>seenState = upload_video, seenHistory = [], seenPromptHistory = []\<rparr>\<rparr>"

subsection \<open>Object URLs\<close>

definition createObjectURL :: "session \<Rightarrow> url \<times> session" where
  "createObjectURL s =
     (urlCounter s,
      s\<lparr>objectUrls := objectUrls s @ [urlCounter s], urlCounter := Suc (urlCounter s)\<rparr>)"

definition revokeObjectURL :: "url \<Rightarrow> session \<Rightarrow> session" where
  "revokeObjectURL u s = s\<lparr>objectUrls := filter (\<lambda>v. v \<noteq> u) (objectUrls s)\<rparr>"

subsection \<open>Transcript and speech output\<close>

text \<open>
  State updates take effect in call order. \<open>addAIMessage\<close> is asynchronous: up to its first
  \<open>await\<close> it appends the message unless the last message is the same text from the
  assistant, and posts the text to \<open>/api/tts\<close> if \<open>shouldAdd\<close> is still true. The updater
  that tests for the duplicate is what clears \<open>shouldAdd\<close>. It runs at once when no update
  of the component is pending; when one is (\<open>pending\<close>: a setter was called earlier in the
  same event), it runs only at the next render, after \<open>shouldAdd\<close> was read, and a duplicate
  text is posted although the transcript keeps one copy. No caller awaits \<open>addAIMessage\<close>.
  What happens when the TTS request settles is \<open>ttsSettled\<close> below.
\<close>

definition duplicate_ai :: "message list \<Rightarrow> string \<Rightarrow> bool" where
  "duplicate_ai ms text =
     (ms \<noteq> [] \<and> role (last ms) = AI \<and> trim (content (last ms)) = trim text)"

definition addAIMessage :: "bool \<Rightarrow> session \<Rightarrow> string \<Rightarrow> session" where
  "addAIMessage pending s text =
     (if text = [] then s
      else if duplicate_ai (messages s) text
      then (if pending then s\<lparr>ttsRequests := ttsRequests s @ [text]\<rparr> else s)
      else s\<lparr>messages := messages s @ [\<lparr>role = AI, content = text\<rparr>],
             ttsRequests := ttsRequests s @ [text]\<rparr>)"

definition addUserMessage :: "session \<Rightarrow> string \<Rightarrow> session" where
  "addUserMessage s text =
     (if text = [] then s
      else s\<lparr>messages := messages s @ [\<lparr>role = User, content = text\<rparr>]\<rparr>)"

text \<open>
  How a TTS request can settle: \<open>axios.post\<close> rejects (with the error's message and the
  \<open>error\<close> field of the response body when there is one), or resolves with \<open>audio_base64\<close>
  and \<open>mime\<close>, each possibly missing. Then how playing can go: \<open>atob\<close> throws, the audio
  element is not mounted, \<open>audio.play()\<close> rejects, or the audio plays.
\<close>

datatype tts_response =
    TtsRejects string "string option"
  | TtsResolves "string option" "string option"

datatype playback = AtobThrows string | AudioMissing | PlayRejects string | PlayOk

text \<open>\<open>playBase64Audio\<close>; \<open>Inl\<close> is the exception that escapes it.\<close>

definition playBase64Audio :: "session \<Rightarrow> string \<Rightarrow> string \<Rightarrow> playback \<Rightarrow> string + session" where
  "playBase64Audio s base64 mime pb =
     (if base64 = [] then Inr s
      else case pb of
        AtobThrows m \<Rightarrow> Inl m
      | AudioMissing \<Rightarrow> Inr (snd (createObjectURL s))
      | PlayRejects m \<Rightarrow>
          (let (u, s1) = createObjectURL s
           in Inr (s1\<lparr>audioSrc := Some u,
                      console := console s1 @ [console_warn ''Playback blocked or failed:'']\<rparr>))
      | PlayOk \<Rightarrow>
          (let (u, s1) = createObjectURL s in Inr (s1\<lparr>audioSrc := Some u\<rparr>)))"

text \<open>\<open>requestServerTTS\<close> from the point where the request settles.\<close>

definition requestServerTTS :: "session \<Rightarrow> tts_response \<Rightarrow> session \<times> (string option \<times> string option) option" where
  "requestServerTTS s r =
     (case r of
        TtsResolves a m \<Rightarrow> (s, Some (a, m))
      | TtsRejects msg srv \<Rightarrow>
          (s\<lparr>console := console s @ [console_error ''TTS request failed''],
             error := Some (''TTS request failed: '' @ or_else srv msg)\<rparr>, None))"

text \<open>The rest of \<open>addAIMessage\<close>, after \<open>await requestServerTTS(text)\<close>.\<close>

definition ttsSettled :: "session \<Rightarrow> tts_response \<Rightarrow> playback \<Rightarrow> session" where
  "ttsSettled s r pb =
     (case requestServerTTS s r of
        (s1, None) \<Rightarrow> s1
      | (s1, Some (a, m)) \<Rightarrow>
          (if or_else a [] = [] then s1
           else case playBase64Audio s1 (or_else a []) (or_else m ''audio/mpeg'') pb of
                  Inr s2 \<Rightarrow> s2
                | Inl e \<Rightarrow>
                    s1\<lparr>console := console s1 @ [console_error ''addAIMessage: TTS/playback failed'']\<rparr>))"

text \<open>
  The effect that runs after a render in which \<open>conversationState\<close> changed (and on mount).
  It installs \<open>onresult\<close> on the speech recogniser, with the \<open>handleUserInput\<close> of this
  render; where the browser has no recogniser, no utterance ever arrives.
\<close>

definition conversationStateEffect :: "session \<Rightarrow> session" where
  "conversationStateEffect s =
     (let s1 = s\<lparr>recognitionClosure := closureOf s\<rparr>
      in if conversationState s = upload_video
         then addAIMessage False s1 ''Tap to upload a video to begin editing.''
         else s1)"

section \<open>The controller\<close>

text \<open>
  A handler passed to a child component is the one of the latest render, so it reads the
  state as it is. The \<open>onresult\<close> handler is renewed only when the phase changes. The
  functions that read \<open>history\<close>, \<open>promptHistory\<close> or \<open>conversationState\<close> are therefore
  given the closure they read from (\<open>restorePrevious_of\<close>, \<open>submitEdit_begin_of\<close>,
  \<open>handleUserInput_of\<close>); \<open>restorePrevious\<close>, \<open>submitEdit_begin\<close> and \<open>handleUserInput\<close> are
  those of the latest render. \<open>history[history.length - 1]\<close> is \<open>undefined\<close> on the empty
  array.
\<close>

definition lastVersion :: "entry list \<Rightarrow> entry option" where
  "lastVersion h = (if h = [] then None else Some (last h))"

definition current :: "session \<Rightarrow> entry option" where
  "current s = lastVersion (history s)"

definition upload_name :: "blob \<Rightarrow> string" where
  "upload_name b = or_else (blob_name b) ''video.mp4''"

subsection \<open>File upload\<close>

text \<open>\<open>handleFileChange\<close>; the file is missing when the dialog is cancelled.\<close>

definition handleFileChange :: "session \<Rightarrow> blob option \<Rightarrow> session" where
  "handleFileChange s file =
     (case file of
        None \<Rightarrow> s
      | Some f \<Rightarrow>
          (let (u, s1) = createObjectURL s;
               s2 = s1\<lparr>history := [\<lparr>blob = f, url = u\<rparr>], promptHistory := []\<rparr>;
               s3 = addUserMessage s2 ''Video uploaded'';
               s4 = addAIMessage True s3 ''Describe the edits you would like to make''
           in s4\<lparr>conversationState := get_prompt\<rparr>))"

subsection \<open>Restore\<close>

text \<open>
  The updater given to \<open>setHistory\<close> in \<open>restorePrevious\<close>: on the empty array
  \<open>removed.url\<close> throws inside the \<open>try\<close> and \<open>[].slice(0, -1)\<close> is empty.
\<close>

definition dropLastVersion :: "session \<Rightarrow> session" where
  "dropLastVersion s =
     (if history s = [] then s
      else (revokeObjectURL (url (last (history s))) s)\<lparr>history := butlast (history s)\<rparr>)"

text \<open>
  \<open>restorePrevious\<close>: the test reads \<open>history\<close> of the closure, the updaters work on the
  state as it is.
\<close>

definition restorePrevious_of :: "closure \<Rightarrow> session \<Rightarrow> session" where
  "restorePrevious_of c s =
     (if length (seenHistory c) > 1 then
        (let s1 = dropLastVersion s;
             s2 = s1\<lparr>promptHistory := butlast (promptHistory s1)\<rparr>;
             s3 = addAIMessage True s2
                    ''Previous version restored. What would you like to edit next?''
         in s3\<lparr>conversationState := get_prompt\<rparr>)
      else s)"

definition restorePrevious :: "session \<Rightarrow> session" where
  "restorePrevious s = restorePrevious_of (closureOf s) s"

subsection \<open>Remote requests\<close>

text \<open>
  How a \<open>fetch\<close> can settle. The promise rejects with a message; or the response is not
  \<open>ok\<close>, with its status and what \<open>response.json()\<close> gives; or it is \<open>ok\<close> and
  \<open>response.blob()\<close> resolves or rejects. \<open>response.json()\<close> rejects on a malformed body,
  gives \<open>null\<close> (reading \<open>.error\<close> of it throws a TypeError, whose message the constructor
  carries), or gives a value whose \<open>error\<close> field may be missing.
\<close>

datatype json_result = JsonThrows string | JsonNull string | JsonValue "string option"

datatype blob_result = BlobRejects string | BlobOk blob

datatype fetch_result =
    FetchRejects string
  | HttpError nat json_result
  | HttpOk blob_result

definition succeeded :: "fetch_result \<Rightarrow> bool" where
  "succeeded res = (case res of HttpOk (BlobOk b) \<Rightarrow> True | _ \<Rightarrow> False)"

text \<open>The instruction text of \<open>submitEdit\<close> (lines 212 to 215).\<close>

definition fullPrompt :: "string list \<Rightarrow> string \<Rightarrow> string" where
  "fullPrompt ph prompt =
     (if length ph > 0
      then ''Previous edits: '' @ join ''. '' ph @ ''. Additional edit: '' @ prompt
      else prompt)"

text \<open>
  \<open>submitEdit\<close> up to \<open>await fetch\<close>: the new state and the request it posts, if any. The
  video and the ledger are those of the closure.
\<close>

definition submitEdit_begin_of ::
    "closure \<Rightarrow> session \<Rightarrow> string \<Rightarrow> session \<times> request option" where
  "submitEdit_begin_of c s prompt =
     (case lastVersion (seenHistory c) of
        None \<Rightarrow> (s, None)
      | Some cur \<Rightarrow>
          (s\<lparr>uploading := True, error := None\<rparr>,
           Some (EditRequest (blob cur) (upload_name (blob cur))
                   (fullPrompt (seenPromptHistory c) prompt))))"

definition submitEdit_begin :: "session \<Rightarrow> string \<Rightarrow> session \<times> request option" where
  "submitEdit_begin s prompt = submitEdit_begin_of (closureOf s) s prompt"

text \<open>The \<open>try\<close> block of \<open>submitEdit\<close> up to the blob: \<open>Inl\<close> is the message of what it throws.\<close>

definition edit_try :: "fetch_result \<Rightarrow> string + blob" where
  "edit_try res =
     (case res of
        FetchRejects m \<Rightarrow> Inl m
      | HttpError st body \<Rightarrow>
          (case body of
             JsonThrows m \<Rightarrow> Inl m
           | JsonNull m \<Rightarrow> Inl m
           | JsonValue e \<Rightarrow> Inl (or_else e ''Processing failed''))
      | HttpOk (BlobRejects m) \<Rightarrow> Inl m
      | HttpOk (BlobOk b) \<Rightarrow> Inr b)"

text \<open>
  \<open>submitEdit\<close> from the point where the request settles: the rest of \<open>try\<close>, then \<open>catch\<close>,
  then \<open>finally\<close>. \<open>prompt\<close> is the argument the call was made with.
\<close>

definition submitEdit_settled :: "session \<Rightarrow> string \<Rightarrow> fetch_result \<Rightarrow> session" where
  "submitEdit_settled s prompt res =
     (let s' =
        (case edit_try res of
           Inr b \<Rightarrow>
             (let (u, s1) = createObjectURL s;
                  s2 = s1\<lparr>history := history s1 @ [\<lparr>blob = b, url = u\<rparr>]\<rparr>;
                  s3 = s2\<lparr>promptHistory := promptHistory s2 @ [prompt]\<rparr>;
                  s4 = addAIMessage True s3
                         ''Edit complete. Continue editing, restore previous version, or finish?''
              in s4\<lparr>conversationState := review, sheetOpen := False\<rparr>)
         | Inl m \<Rightarrow> s\<lparr>console := console s @ [console_error m], error := Some m\<rparr>)
      in s'\<lparr>uploading := False\<rparr>)"

text \<open>
  \<open>addSongToCurrentVideo\<close> up to \<open>await fetch\<close>. \<open>current\<close> is the last entry of
  \<open>history\<close> or \<open>null\<close>; an entry always has its blob.
\<close>

definition addSongToCurrentVideo_begin :: "session \<Rightarrow> song \<Rightarrow> session \<times> request option" where
  "addSongToCurrentVideo_begin s sg =
     (case current s of
        None \<Rightarrow> (s\<lparr>error := Some ''No video loaded''\<rparr>, None)
      | Some cur \<Rightarrow>
          (s\<lparr>addingSong := True,
             addingSongTitle := (if title sg = [] then None else Some (title sg)),
             uploading := True, error := None\<rparr>,
           Some (MixRequest (blob cur) (upload_name (blob cur)) (public_url sg))))"

text \<open>
  Its \<open>try\<close> block up to the blob. \<open>res.json().catch(() => ({}))\<close> turns a malformed body
  into the empty object.
\<close>

definition mix_try :: "fetch_result \<Rightarrow> string + blob" where
  "mix_try res =
     (case res of
        FetchRejects m \<Rightarrow> Inl m
      | HttpError st body \<Rightarrow>
          (case body of
             JsonThrows m \<Rightarrow> Inl (''Add music failed ('' @ showNat st @ '')'')
           | JsonNull m \<Rightarrow> Inl m
           | JsonValue e \<Rightarrow> Inl (or_else e (''Add music failed ('' @ showNat st @ '')'')))
      | HttpOk (BlobRejects m) \<Rightarrow> Inl m
      | HttpOk (BlobOk b) \<Rightarrow> Inr b)"

text \<open>The string \<open>addSongToCurrentVideo\<close> appends to \<open>promptHistory\<close> (line 327), byte for byte.\<close>

definition songLedgerText :: "song \<Rightarrow> string" where
  "songLedgerText sg =
     ''Added song: '' @ title sg
       @ [CHR 0x20, CHR 0xC3, CHR 0xA2, CHR 0xE2, CHR 0x82, CHR 0xAC, CHR 0xE2, CHR 0x80, CHR 0x9D,
          CHR 0x20]
       @ artist sg"

definition addSongToCurrentVideo_settled :: "session \<Rightarrow> song \<Rightarrow> fetch_result \<Rightarrow> session" where
  "addSongToCurrentVideo_settled s sg res =
     (let s' =
        (case mix_try res of
           Inr b \<Rightarrow>
             (let (u, s1) = createObjectURL s;
                  s2 = s1\<lparr>history := history s1 @ [\<lparr>blob = b, url = u\<rparr>]\<rparr>;
                  s3 = s2\<lparr>promptHistory := promptHistory s2 @ [songLedgerText sg]\<rparr>;
                  s4 = addAIMessage True s3
                         (''Added '' @ [CHR 0x22] @ title sg @ [CHR 0x22]
                            @ '' to the video. Continue editing or finish.'')
              in s4\<lparr>trendingOpen := False, conversationState := review\<rparr>)
         | Inl m \<Rightarrow>
             s\<lparr>console := console s @ [console_error (''addSongToCurrentVideo: '' @ m)],
               error := Some m\<rparr>)
      in s'\<lparr>addingSong := False, addingSongTitle := None, uploading := False\<rparr>)"

subsection \<open>User input\<close>

text \<open>
  \<open>handleUserInput\<close>: the new state, and the edit request it posts when the phase is
  \<open>get_prompt\<close>. The phase it reads is that of the closure. \<open>pending\<close> says that the caller
  has already queued an update; \<open>addUserMessage\<close> queues one unless the text is empty.
\<close>

definition handleUserInput_of ::
    "closure \<Rightarrow> bool \<Rightarrow> session \<Rightarrow> string \<Rightarrow> session \<times> request option" where
  "handleUserInput_of c pending s transcript =
     (let s1 = addUserMessage s transcript;
          queued = (pending \<or> transcript \<noteq> []) in
      if seenState c = get_prompt then submitEdit_begin_of c s1 transcript
      else if seenState c = review then
        (let lower = toLowerCase transcript in
         if js_includes lower ''restore'' then (restorePrevious_of c s1, None)
         else if js_includes lower ''edit'' \<or> js_includes lower ''change''
                 \<or> js_includes lower ''more'' \<or> js_includes lower ''yes''
         then ((addAIMessage queued s1 ''What additional edits would you like?'')
                 \<lparr>conversationState := get_prompt\<rparr>, None)
         else if js_includes lower ''done'' \<or> js_includes lower ''no''
         then ((addAIMessage queued s1 ''Session complete. Upload a new video to continue.'')
                 \<lparr>conversationState := upload_video, history := [], promptHistory := [],
                  messages := []\<rparr>, None)
         else (addAIMessage queued s1
                 ''Please specify: more edits, restore previous version, or done?'',
               None))
      else (s1, None))"

definition handleUserInput :: "session \<Rightarrow> string \<Rightarrow> session \<times> request option" where
  "handleUserInput s transcript = handleUserInput_of (closureOf s) False s transcript"

text \<open>
  \<open>recognition.onresult\<close> (lines 78 to 82): the transcript is trimmed, \<open>setListening(false)\<close>
  queues an update when it changes the flag, and the \<open>handleUserInput\<close> of the render
  that installed the handler runs.
\<close>

definition onresult :: "session \<Rightarrow> string \<Rightarrow> session \<times> request option" where
  "onresult s transcript =
     handleUserInput_of (recognitionClosure s) (listening s) (s\<lparr>listening := False\<rparr>)
       (trim transcript)"

definition handleTextSubmit :: "session \<Rightarrow> session \<times> request option" where
  "handleTextSubmit s =
     (if trim (inputText s) \<noteq> [] then
        (let (s1, r) = handleUserInput s (trim (inputText s)) in (s1\<lparr>inputText := []\<rparr>, r))
      else (s, None))"

section \<open>Sessions\<close>

text \<open>
  One event is one thing that happens to the component: a handler runs (for typed input,
  clicks and file selection that of the latest render, for an utterance the installed
  \<open>onresult\<close>), and a request it posts settles before the next event, in the way the event
  says. The settling of a TTS request is an event of its own, since nothing waits for it.
  After each event the component renders and the effect on \<open>conversationState\<close> runs if the
  phase changed. The result an event carries is not read when its handler posts no request.
\<close>

datatype event =
    FileChange "blob option"
  | TypeText string
  | TextSubmit fetch_result
  | Utterance string fetch_result
  | RestoreClick
  | AddSong song fetch_result
  | TtsSettles tts_response playback

definition editSettles :: "session \<times> request option \<Rightarrow> string \<Rightarrow> fetch_result \<Rightarrow> session" where
  "editSettles p prompt res =
     (case snd p of None \<Rightarrow> fst p | Some r \<Rightarrow> submitEdit_settled (fst p) prompt res)"

definition mixSettles :: "session \<times> request option \<Rightarrow> song \<Rightarrow> fetch_result \<Rightarrow> session" where
  "mixSettles p sg res =
     (case snd p of None \<Rightarrow> fst p | Some r \<Rightarrow> addSongToCurrentVideo_settled (fst p) sg res)"

fun handle :: "session \<Rightarrow> event \<Rightarrow> session" where
  "handle s (FileChange file) = handleFileChange s file"
| "handle s (TypeText t) = s\<lparr>inputText := t\<rparr>"
| "handle s (TextSubmit res) = editSettles (handleTextSubmit s) (trim (inputText s)) res"
| "handle s (Utterance t res) = editSettles (onresult s t) (trim t) res"
| "handle s RestoreClick = restorePrevious s"
| "handle s (AddSong sg res) = mixSettles (addSongToCurrentVideo_begin s sg) sg res"
| "handle s (TtsSettles r pb) = ttsSettled s r pb"

definition step :: "session \<Rightarrow> event \<Rightarrow> session" where
  "step s e =
     (let s' = handle s e
      in if conversationState s' \<noteq> conversationState s then conversationStateEffect s' else s')"

definition mounted :: session where
  "mounted = conversationStateEffect initial"

definition run :: "event list \<Rightarrow> session" where
  "run es = foldl step mounted es"


text \<open>
  What every session keeps: the ledger is one shorter than the history (and empty with it),
  the history is empty exactly in the phase \<open>upload_video\<close>, and the phase \<open>review\<close> has
  an edited version to go back from.
\<close>

definition session_inv :: "session \<Rightarrow> bool" where
  "session_inv s =
     (length (promptHistory s) = length (history s) - 1 \<and>
      (conversationState s = upload_video) = (history s = []) \<and>
      (conversationState s = review \<longrightarrow> 2 \<le> length (history s)))"

section \<open>Example sessions\<close>

text \<open>
  A video is uploaded; an edit succeeds; a second edit succeeds after the user asks for
  more. The song is the first entry of \<open>HARDCODED_TRENDING\<close>.
\<close>

definition demo_video :: blob where
  "demo_video = Blob (Some ''clip.mp4'') [1, 2, 3]"

definition demo_edited :: blob where
  "demo_edited = Blob None [4, 5]"

definition demo_song :: song where
  "demo_song =
     \<lparr>title = ''Sahiba'', artist = ''Aditya Rikhari'',
      public_url =
        ''https://drive.google.com/uc?export=download&id=1u5k0HPhka_ytUGLt6eyn3awVM3oYSS6b''\<rparr>"

definition demo_uploaded :: session where
  "demo_uploaded = run [FileChange (Some demo_video)]"

definition demo_review :: session where
  "demo_review =
     run [FileChange (Some demo_video), Utterance ''trim start'' (HttpOk (BlobOk demo_edited))]"

definition demo_two_edits :: session where
  "demo_two_edits =
     run [FileChange (Some demo_video),
          Utterance ''trim start'' (HttpOk (BlobOk demo_edited)),
          Utterance ''more'' (FetchRejects []),
          Utterance ''add caption'' (HttpOk (BlobOk demo_edited)),
          Utterance ''yes'' (FetchRejects [])]"

text \<open>
  An edit succeeds, the user asks for more, and then clicks the restore button while the
  phase is \<open>get_prompt\<close>: the phase does not change, so \<open>onresult\<close> is not renewed.
\<close>

definition demo_restored :: session where
  "demo_restored =
     run [FileChange (Some demo_video),
          Utterance ''trim start'' (HttpOk (BlobOk demo_edited)),
          Utterance ''more'' (FetchRejects []),
          RestoreClick]"

text \<open>What ties the installed \<open>onresult\<close> to the state: it has seen the phase as it is.\<close>

definition closure_inv :: "session \<Rightarrow> bool" where
  "closure_inv s = (seenState (recognitionClosure s) = conversationState s)"


section \<open>Basic facts\<close>

lemma addAIMessage_keeps [simp]:
  "conversationState (addAIMessage q s t) = conversationState s"
  "history (addAIMessage q s t) = history s"
  "promptHistory (addAIMessage q s t) = promptHistory s"
  "uploading (addAIMessage q s t) = uploading s"
  "error (addAIMessage q s t) = error s"
  "objectUrls (addAIMessage q s t) = objectUrls s"
  "urlCounter (addAIMessage q s t) = urlCounter s"
  "console (addAIMessage q s t) = console s"
  "inputText (addAIMessage q s t) = inputText s"
  "recognitionClosure (addAIMessage q s t) = recognitionClosure s"
  by (simp_all add: addAIMessage_def)

lemma addUserMessage_keeps [simp]:
  "conversationState (addUserMessage s t) = conversationState s"
  "history (addUserMessage s t) = history s"
  "promptHistory (addUserMessage s t) = promptHistory s"
  "uploading (addUserMessage s t) = uploading s"
  "error (addUserMessage s t) = error s"
  "objectUrls (addUserMessage s t) = objectUrls s"
  "urlCounter (addUserMessage s t) = urlCounter s"
  "console (addUserMessage s t) = console s"
  "inputText (addUserMessage s t) = inputText s"
  "ttsRequests (addUserMessage s t) = ttsRequests s"
  "recognitionClosure (addUserMessage s t) = recognitionClosure s"
  "closureOf (addUserMessage s t) = closureOf s"
  by (simp_all add: addUserMessage_def closureOf_def)

lemma ttsSettled_keeps:
  "conversationState (ttsSettled s r pb) = conversationState s"
  "history (ttsSettled s r pb) = history s"
  "promptHistory (ttsSettled s r pb) = promptHistory s"
  "messages (ttsSettled s r pb) = messages s"
  "uploading (ttsSettled s r pb) = uploading s"
  "recognitionClosure (ttsSettled s r pb) = recognitionClosure s"
  by (auto simp: ttsSettled_def requestServerTTS_def playBase64Audio_def createObjectURL_def
      split: tts_response.splits playback.splits option.splits sum.splits if_splits)

lemma nonempty_length: "xs \<noteq> [] \<Longrightarrow> Suc 0 \<le> length xs"
  by (cases xs) simp_all

subsection \<open>The handlers of the latest render\<close>


lemma submitEdit_begin_live:
  "submitEdit_begin s prompt =
     (if history s = [] then (s, None)
      else (s\<lparr>uploading := True, error := None\<rparr>,
            Some (EditRequest (blob (last (history s))) (upload_name (blob (last (history s))))
                    (fullPrompt (promptHistory s) prompt))))"
  by (simp add: submitEdit_begin_def submitEdit_begin_of_def closureOf_def lastVersion_def)

lemma handleUserInput_live:
  "handleUserInput s transcript =
     (let s1 = addUserMessage s transcript in
      if conversationState s = get_prompt then submitEdit_begin s1 transcript
      else if conversationState s = review then
        (let lower = toLowerCase transcript in
         if js_includes lower ''restore'' then (restorePrevious s1, None)
         else if js_includes lower ''edit'' \<or> js_includes lower ''change''
                 \<or> js_includes lower ''more'' \<or> js_includes lower ''yes''
         then ((addAIMessage (transcript \<noteq> []) s1 ''What additional edits would you like?'')
                 \<lparr>conversationState := get_prompt\<rparr>, None)
         else if js_includes lower ''done'' \<or> js_includes lower ''no''
         then ((addAIMessage (transcript \<noteq> []) s1
                  ''Session complete. Upload a new video to continue.'')
                 \<lparr>conversationState := upload_video, history := [], promptHistory := [],
                  messages := []\<rparr>, None)
         else (addAIMessage (transcript \<noteq> []) s1
                 ''Please specify: more edits, restore previous version, or done?'',
               None))
      else (s1, None))"
  by (simp add: handleUserInput_def handleUserInput_of_def submitEdit_begin_def
      restorePrevious_def Let_def)
    (simp add: closureOf_def)

subsection \<open>What every session keeps\<close>

lemma inv_effect: "session_inv s \<Longrightarrow> session_inv (conversationStateEffect s)"
  by (auto simp: session_inv_def conversationStateEffect_def Let_def)

lemma inv_handleFileChange: "session_inv s \<Longrightarrow> session_inv (handleFileChange s f)"
  by (cases f) (simp_all add: session_inv_def handleFileChange_def createObjectURL_def)

lemma inv_restorePrevious_of:
  assumes "session_inv s" and "1 < length (seenHistory c) \<Longrightarrow> 1 < length (history s)"
  shows "session_inv (restorePrevious_of c s)"
proof (cases "1 < length (seenHistory c)")
  case True
  then have l: "1 < length (history s)" by (rule assms(2))
  then have "history s \<noteq> []" "butlast (history s) \<noteq> []"
    by (cases "history s" rule: rev_cases; auto)+
  with assms(1) True l show ?thesis
    by (simp add: session_inv_def restorePrevious_of_def dropLastVersion_def revokeObjectURL_def
        Let_def)
next
  case False
  with assms(1) show ?thesis by (simp add: restorePrevious_of_def)
qed

lemma inv_restorePrevious: "session_inv s \<Longrightarrow> session_inv (restorePrevious s)"
  unfolding restorePrevious_def by (rule inv_restorePrevious_of) (simp_all add: closureOf_def)

lemma inv_submitEdit_settled:
  "session_inv s \<Longrightarrow> history s \<noteq> [] \<Longrightarrow> session_inv (submitEdit_settled s p res)"
  by (cases "edit_try res")
    (auto simp: session_inv_def submitEdit_settled_def createObjectURL_def Let_def
      nonempty_length)

lemma inv_addSong_settled:
  "session_inv s \<Longrightarrow> history s \<noteq> [] \<Longrightarrow> session_inv (addSongToCurrentVideo_settled s sg res)"
  by (cases "mix_try res")
    (auto simp: session_inv_def addSongToCurrentVideo_settled_def createObjectURL_def Let_def
      nonempty_length)

lemma inv_submitEdit_of:
  assumes "session_inv s" and "history s \<noteq> []"
  shows "session_inv (editSettles (submitEdit_begin_of c s p) q res)"
proof (cases "lastVersion (seenHistory c)")
  case None
  with assms(1) show ?thesis
    by (simp add: editSettles_def submitEdit_begin_of_def)
next
  case (Some cur)
  have "session_inv (s\<lparr>uploading := True, error := None\<rparr>)"
    using assms(1) by (simp add: session_inv_def)
  moreover have "history (s\<lparr>uploading := True, error := None\<rparr>) \<noteq> []"
    using assms(2) by simp
  ultimately have "session_inv (submitEdit_settled (s\<lparr>uploading := True, error := None\<rparr>) q res)"
    by (rule inv_submitEdit_settled)
  with Some show ?thesis
    by (simp add: editSettles_def submitEdit_begin_of_def)
qed

lemma handleUserInput_review:
  "conversationState s = review \<Longrightarrow> snd (handleUserInput s t) = None"
  by (simp add: handleUserInput_live Let_def)

lemma inv_handleUserInput_of:
  assumes "session_inv s" and "seenState c = conversationState s"
  shows "session_inv (editSettles (handleUserInput_of c pend s t) q res)"
proof (cases "conversationState s")
  case upload_video
  with assms show ?thesis
    by (simp add: handleUserInput_of_def editSettles_def Let_def session_inv_def)
next
  case get_prompt
  have "session_inv (addUserMessage s t)" using assms(1) by (simp add: session_inv_def)
  moreover have "history (addUserMessage s t) \<noteq> []"
    using assms(1) get_prompt by (simp add: session_inv_def)
  ultimately have "session_inv (editSettles (submitEdit_begin_of c (addUserMessage s t) t) q res)"
    by (rule inv_submitEdit_of)
  with get_prompt assms(2) show ?thesis
    by (simp add: handleUserInput_of_def Let_def)
next
  case review
  have "session_inv (addUserMessage s t)" using assms(1) by (simp add: session_inv_def)
  moreover have "1 < length (history (addUserMessage s t))"
    using assms(1) review by (simp add: session_inv_def)
  ultimately have r: "session_inv (restorePrevious_of c (addUserMessage s t))"
    by (intro inv_restorePrevious_of)
  from review assms r show ?thesis
    by (simp add: handleUserInput_of_def editSettles_def Let_def)
      (simp add: session_inv_def)
qed

lemma inv_handleUserInput:
  "session_inv s \<Longrightarrow> session_inv (editSettles (handleUserInput s t) q res)"
  unfolding handleUserInput_def by (rule inv_handleUserInput_of) (simp_all add: closureOf_def)

lemma inv_handle:
  assumes a: "session_inv s" and c: "closure_inv s"
  shows "session_inv (handle s e)"
proof (cases e)
  case (FileChange f)
  with a show ?thesis by (simp add: inv_handleFileChange)
next
  case (TypeText t)
  with a show ?thesis by (simp add: session_inv_def)
next
  case (TextSubmit res)
  show ?thesis
  proof (cases "trim (inputText s) = []")
    case True
    with a TextSubmit show ?thesis by (simp add: handleTextSubmit_def editSettles_def)
  next
    case False
    have "editSettles (handleTextSubmit s) (trim (inputText s)) res
        = editSettles (handleUserInput s (trim (inputText s))) (trim (inputText s)) res
            \<lparr>inputText := []\<rparr>"
      using False
      by (auto simp: handleTextSubmit_def editSettles_def split_def Let_def
          submitEdit_settled_def addAIMessage_def createObjectURL_def
          split: option.splits sum.splits)
    moreover have "session_inv
        (editSettles (handleUserInput s (trim (inputText s))) (trim (inputText s)) res)"
      using a by (rule inv_handleUserInput)
    then have "session_inv
        (editSettles (handleUserInput s (trim (inputText s))) (trim (inputText s)) res
           \<lparr>inputText := []\<rparr>)"
      by (simp add: session_inv_def)
    ultimately show ?thesis using TextSubmit by simp
  qed
next
  case (Utterance t res)
  have "session_inv (s\<lparr>listening := False\<rparr>)" using a by (simp add: session_inv_def)
  moreover have "seenState (recognitionClosure s) = conversationState (s\<lparr>listening := False\<rparr>)"
    using c by (simp add: closure_inv_def)
  ultimately have "session_inv (editSettles
      (handleUserInput_of (recognitionClosure s) (listening s) (s\<lparr>listening := False\<rparr>) (trim t))
      (trim t) res)"
    by (rule inv_handleUserInput_of)
  with Utterance show ?thesis by (simp add: onresult_def)
next
  case RestoreClick
  with a show ?thesis by (simp add: inv_restorePrevious)
next
  case (AddSong sg res)
  show ?thesis
  proof (cases "history s = []")
    case True
    with a AddSong show ?thesis
      by (simp add: addSongToCurrentVideo_begin_def current_def lastVersion_def mixSettles_def
          session_inv_def)
  next
    case False
    let ?s1 = "s\<lparr>addingSong := True,
      addingSongTitle := (if title sg = [] then None else Some (title sg)),
      uploading := True, error := None\<rparr>"
    have "session_inv ?s1" using a by (simp add: session_inv_def)
    moreover have "history ?s1 \<noteq> []" using False by simp
    ultimately have "session_inv (addSongToCurrentVideo_settled ?s1 sg res)"
      by (rule inv_addSong_settled)
    with False AddSong show ?thesis
      by (simp add: addSongToCurrentVideo_begin_def current_def lastVersion_def mixSettles_def)
  qed
next
  case (TtsSettles r pb)
  with a show ?thesis
    by (simp add: session_inv_def ttsSettled_keeps)
qed

subsection \<open>No handler touches the installed \<open>onresult\<close>\<close>

lemma restorePrevious_of_closure:
  "recognitionClosure (restorePrevious_of c s) = recognitionClosure s"
  by (simp add: restorePrevious_of_def dropLastVersion_def revokeObjectURL_def Let_def)

lemma submitEdit_settled_closure:
  "recognitionClosure (submitEdit_settled s p res) = recognitionClosure s"
  by (cases "edit_try res") (simp_all add: submitEdit_settled_def createObjectURL_def Let_def)

lemma addSong_settled_closure:
  "recognitionClosure (addSongToCurrentVideo_settled s sg res) = recognitionClosure s"
  by (cases "mix_try res")
    (simp_all add: addSongToCurrentVideo_settled_def createObjectURL_def Let_def)

lemma submitEdit_of_closure:
  "recognitionClosure (editSettles (submitEdit_begin_of c s p) q res) = recognitionClosure s"
  by (cases "lastVersion (seenHistory c)")
    (simp_all add: editSettles_def submitEdit_begin_of_def submitEdit_settled_closure)

lemma handleUserInput_of_closure:
  "recognitionClosure (editSettles (handleUserInput_of c pend s t) q res) = recognitionClosure s"
proof (cases "seenState c = get_prompt")
  case True
  then show ?thesis
    using submitEdit_of_closure [of c "addUserMessage s t" t q res]
    by (simp add: handleUserInput_of_def Let_def)
next
  case False
  then show ?thesis
    by (simp add: handleUserInput_of_def editSettles_def Let_def restorePrevious_of_closure)
qed

lemma handleTextSubmit_closure:
  "recognitionClosure (editSettles (handleTextSubmit s) p res) = recognitionClosure s"
proof (cases "trim (inputText s) = []")
  case True
  then show ?thesis by (simp add: handleTextSubmit_def editSettles_def)
next
  case False
  let ?h = "handleUserInput s (trim (inputText s))"
  have "recognitionClosure (editSettles ?h p res) = recognitionClosure s"
    unfolding handleUserInput_def by (rule handleUserInput_of_closure)
  moreover have "recognitionClosure (editSettles (handleTextSubmit s) p res)
      = recognitionClosure (editSettles ?h p res)"
    using False
    by (cases "snd ?h")
      (simp_all add: handleTextSubmit_def editSettles_def split_def Let_def
        submitEdit_settled_closure)
  ultimately show ?thesis by simp
qed

lemma handle_closure: "recognitionClosure (handle s e) = recognitionClosure s"
proof (cases e)
  case (FileChange f)
  then show ?thesis
    by (cases f) (simp_all add: handleFileChange_def createObjectURL_def)
next
  case (Utterance t res)
  then show ?thesis
    using handleUserInput_of_closure
      [of "recognitionClosure s" "listening s" "s\<lparr>listening := False\<rparr>" "trim t" "trim t" res]
    by (simp add: onresult_def)
next
  case (AddSong sg res)
  then show ?thesis
    by (cases "current s")
      (simp_all add: addSongToCurrentVideo_begin_def mixSettles_def addSong_settled_closure)
qed (simp_all add: handleTextSubmit_closure restorePrevious_def restorePrevious_of_closure
    ttsSettled_keeps)

lemma inv_step:
  assumes "session_inv s" and "closure_inv s"
  shows "session_inv (step s e) \<and> closure_inv (step s e)"
proof -
  have "session_inv (handle s e)" using assms by (rule inv_handle)
  then have "session_inv (step s e)"
    by (simp add: step_def Let_def inv_effect)
  moreover have "closure_inv (step s e)"
    using assms(2)
    by (simp add: step_def Let_def closure_inv_def conversationStateEffect_def closureOf_def
        handle_closure)
  ultimately show ?thesis ..
qed

lemma inv_mounted: "session_inv mounted \<and> closure_inv mounted"
  by (simp add: mounted_def initial_def session_inv_def closure_inv_def
      conversationStateEffect_def closureOf_def Let_def)

lemma inv_foldl:
  "session_inv s \<Longrightarrow> closure_inv s \<Longrightarrow>
   session_inv (foldl step s es) \<and> closure_inv (foldl step s es)"
  by (induction es arbitrary: s) (simp_all add: inv_step)


lemma closure_inv_run: "closure_inv (run es)"
  by (simp add: run_def inv_foldl inv_mounted)


lemma demo_uploaded_eval:
  "conversationState demo_uploaded = get_prompt"
  "history demo_uploaded = [\<lparr>blob = demo_video, url = 0\<rparr>]"
  "promptHistory demo_uploaded = []"
  "uploading demo_uploaded = False"
  by code_simp+

lemma demo_two_edits_eval:
  "conversationState demo_two_edits = get_prompt"
  "history demo_two_edits \<noteq> []"
  "promptHistory demo_two_edits = [''trim start'', ''add caption'']"
  by code_simp+

lemma js_includes_sublist: "js_includes s k = sublist k s"
  by (induction s) (auto simp: sublist_Cons_right)






lemma succeeded_edit_try:
  "succeeded res \<Longrightarrow> \<exists>b. res = HttpOk (BlobOk b) \<and> edit_try res = Inr b \<and> mix_try res = Inr b"
  by (auto simp: succeeded_def edit_try_def mix_try_def
      split: fetch_result.splits blob_result.splits)

lemma failed_edit_try:
  "\<not> succeeded res \<Longrightarrow> (\<exists>m. edit_try res = Inl m) \<and> (\<exists>m. mix_try res = Inl m)"
  by (auto simp: succeeded_def edit_try_def mix_try_def
      split: fetch_result.splits blob_result.splits json_result.splits)

lemma submitEdit_settled_failure:
  "edit_try res = Inl m \<Longrightarrow>
   submitEdit_settled s prompt res =
     s\<lparr>console := console s @ [console_error m], error := Some m, uploading := False\<rparr>"
  by (simp add: submitEdit_settled_def)

lemma submitEdit_settled_success:
  "edit_try res = Inr b \<Longrightarrow>
   history (submitEdit_settled s prompt res) = history s @ [\<lparr>blob = b, url = urlCounter s\<rparr>] \<and>
   promptHistory (submitEdit_settled s prompt res) = promptHistory s @ [prompt] \<and>
   conversationState (submitEdit_settled s prompt res) = review"
  by (simp add: submitEdit_settled_def createObjectURL_def)

lemma addSong_settled_failure:
  "mix_try res = Inl m \<Longrightarrow>
   addSongToCurrentVideo_settled s sg res =
     s\<lparr>console := console s @ [console_error (''addSongToCurrentVideo: '' @ m)], error := Some m,
       addingSong := False, addingSongTitle := None, uploading := False\<rparr>"
  by (simp add: addSongToCurrentVideo_settled_def)

lemma addSong_settled_success:
  "mix_try res = Inr b \<Longrightarrow>
   history (addSongToCurrentVideo_settled s sg res) = history s @ [\<lparr>blob = b, url = urlCounter s\<rparr>] \<and>
   promptHistory (addSongToCurrentVideo_settled s sg res) = promptHistory s @ [songLedgerText sg] \<and>
   conversationState (addSongToCurrentVideo_settled s sg res) = review"
  by (simp add: addSongToCurrentVideo_settled_def createObjectURL_def)

section \<open>The lock-step of ledger and history\<close>




section \<open>Classification of input in the phase \<open>review\<close>\<close>



section \<open>The pending flag\<close>

text \<open>
  C3, as stated: in a state where \<open>uploading\<close> is set, no further edit or mix is posted.
  With the first edit request still in flight and the flag set, a second text input posts a
  second edit request, and a song posts a mix request.
\<close>

theorem second_request_while_pending:
  "uploading (fst (handleUserInput demo_uploaded ''trim start'')) \<and>
   snd (handleUserInput (fst (handleUserInput demo_uploaded ''trim start'')) ''speed up'')
     = Some (EditRequest demo_video ''clip.mp4'' ''speed up'') \<and>
   snd (addSongToCurrentVideo_begin (fst (handleUserInput demo_uploaded ''trim start'')) demo_song)
     = Some (MixRequest demo_video ''clip.mp4'' (public_url demo_song))"
  by code_simp

text \<open>
  C3, amended: \<open>submitEdit\<close> and \<open>addSongToCurrentVideo\<close> set the flag when they post a
  request, and they post one exactly when there is a current video; neither they nor
  \<open>handleUserInput\<close> and \<open>handleTextSubmit\<close> read the flag, so what is posted does not
  depend on it.
\<close>

theorem dispatch_ignores_pending_flag:
  "(snd (submitEdit_begin s prompt) = None) = (history s = []) \<and>
   (snd (addSongToCurrentVideo_begin s sg) = None) = (history s = []) \<and>
   snd (submitEdit_begin (s\<lparr>uploading := b\<rparr>) prompt) = snd (submitEdit_begin s prompt) \<and>
   snd (addSongToCurrentVideo_begin (s\<lparr>uploading := b\<rparr>) sg)
     = snd (addSongToCurrentVideo_begin s sg) \<and>
   snd (handleUserInput (s\<lparr>uploading := b\<rparr>) t) = snd (handleUserInput s t) \<and>
   snd (handleTextSubmit (s\<lparr>uploading := b\<rparr>)) = snd (handleTextSubmit s) \<and>
   (history s \<noteq> [] \<longrightarrow>
      uploading (fst (submitEdit_begin s prompt)) \<and>
      uploading (fst (addSongToCurrentVideo_begin s sg)))"
proof -
  have h: "snd (handleUserInput (s\<lparr>uploading := b\<rparr>) u) = snd (handleUserInput s u)" for u
    by (simp add: handleUserInput_live submitEdit_begin_live Let_def)
  then have "snd (handleTextSubmit (s\<lparr>uploading := b\<rparr>)) = snd (handleTextSubmit s)"
    by (simp add: handleTextSubmit_def split_def Let_def)
  with h [of t] show ?thesis
    by (simp add: submitEdit_begin_live addSongToCurrentVideo_begin_def current_def lastVersion_def)
qed

text \<open>The amended C3 on the session that has just uploaded a video.\<close>

theorem dispatch_ignores_pending_flag_witness:
  "history demo_uploaded \<noteq> [] \<and>
   uploading (fst (submitEdit_begin demo_uploaded ''trim start'')) \<and>
   snd (submitEdit_begin (demo_uploaded\<lparr>uploading := True\<rparr>) ''trim start'')
     = snd (submitEdit_begin demo_uploaded ''trim start'') \<and>
   snd (submitEdit_begin demo_uploaded ''trim start'') \<noteq> None"
proof -
  have "history demo_uploaded \<noteq> []" by (simp add: demo_uploaded_eval)
  then show ?thesis
    using dispatch_ignores_pending_flag [of demo_uploaded "''trim start''" demo_song True "''trim start''"]
    by simp
qed

text \<open>
  C4: however an edit or mix request settles (the fetch rejects, the status is not a
  success, the body is malformed, reading the blob fails, or all succeeds), \<open>uploading\<close> is
  false afterwards.
\<close>

theorem pending_flag_cleared:
  "uploading (submitEdit_settled s prompt res) = False \<and>
   uploading (addSongToCurrentVideo_settled s sg res) = False \<and>
   uploading (editSettles (s, Some r) prompt res) = False \<and>
   uploading (mixSettles (s, Some r) sg res) = False"
  by (simp add: submitEdit_settled_def addSongToCurrentVideo_settled_def editSettles_def
      mixSettles_def Let_def)

text \<open>
  C4 on an edit whose error response has a malformed body: the flag is set while the request
  is in flight and false once it has settled.
\<close>

theorem pending_flag_cleared_witness:
  "uploading (fst (submitEdit_begin demo_uploaded ''trim start'')) = True \<and>
   uploading (submitEdit_settled (fst (submitEdit_begin demo_uploaded ''trim start''))
       ''trim start'' (HttpError 500 (JsonThrows ''Unexpected token < in JSON''))) = False"
proof -
  have "history demo_uploaded \<noteq> []" by (simp add: demo_uploaded_eval)
  then have "uploading (fst (submitEdit_begin demo_uploaded ''trim start'')) = True"
    by (simp add: submitEdit_begin_live)
  then show ?thesis
    using pending_flag_cleared [of "fst (submitEdit_begin demo_uploaded ''trim start'')"
        "''trim start''" "HttpError 500 (JsonThrows ''Unexpected token < in JSON'')"]
    by simp
qed

section \<open>Requests settle all or nothing\<close>

lemma failed_submitEdit_of:
  assumes "\<not> succeeded res"
  shows "conversationState (editSettles (submitEdit_begin_of c s p) q res) = conversationState s \<and>
         history (editSettles (submitEdit_begin_of c s p) q res) = history s \<and>
         promptHistory (editSettles (submitEdit_begin_of c s p) q res) = promptHistory s"
proof -
  obtain m where "edit_try res = Inl m"
    using assms failed_edit_try by blast
  then show ?thesis
    by (cases "lastVersion (seenHistory c)")
      (simp_all add: editSettles_def submitEdit_begin_of_def submitEdit_settled_failure)
qed

lemma failed_utterance:
  assumes "\<not> succeeded res" and "conversationState s = get_prompt" and "closure_inv s"
  shows "conversationState (handle s (Utterance t res)) = get_prompt \<and>
         history (handle s (Utterance t res)) = history s \<and>
         promptHistory (handle s (Utterance t res)) = promptHistory s"
proof -
  have "handle s (Utterance t res) =
      editSettles (submitEdit_begin_of (recognitionClosure s)
        (addUserMessage (s\<lparr>listening := False\<rparr>) (trim t)) (trim t)) (trim t) res"
    using assms(2,3) by (simp add: onresult_def handleUserInput_of_def closure_inv_def Let_def)
  then show ?thesis
    using failed_submitEdit_of [OF assms(1), of "recognitionClosure s"
        "addUserMessage (s\<lparr>listening := False\<rparr>) (trim t)" "trim t" "trim t"] assms(2)
    by simp
qed

lemma failed_text_submit:
  assumes "\<not> succeeded res" and "conversationState s = get_prompt"
  shows "conversationState (handle s (TextSubmit res)) = get_prompt \<and>
         history (handle s (TextSubmit res)) = history s \<and>
         promptHistory (handle s (TextSubmit res)) = promptHistory s"
proof (cases "trim (inputText s) = []")
  case True
  with assms(2) show ?thesis by (simp add: handleTextSubmit_def editSettles_def)
next
  case False
  let ?x = "trim (inputText s)"
  let ?b = "submitEdit_begin_of (closureOf s) (addUserMessage s ?x) ?x"
  obtain m where m: "edit_try res = Inl m"
    using assms(1) failed_edit_try by blast
  have h: "handleUserInput s ?x = ?b"
    using assms(2) by (simp add: handleUserInput_def handleUserInput_of_def closureOf_def Let_def)
  have "handle s (TextSubmit res) = editSettles (fst ?b\<lparr>inputText := []\<rparr>, snd ?b) ?x res"
    using False by (simp add: handleTextSubmit_def h split_def Let_def)
  then show ?thesis
    using assms(2) m
    by (cases "lastVersion (seenHistory (closureOf s))")
      (simp_all add: editSettles_def submitEdit_begin_of_def submitEdit_settled_failure)
qed

text \<open>
  C5: when an edit or mix request fails, history, ledger and phase are as before (an edit
  submitted in \<open>get_prompt\<close>, typed or spoken, leaves the phase \<open>get_prompt\<close>) and \<open>error\<close>
  holds the message of the failure: the message of the exception when the fetch, the
  parsing of the body or the reading of the blob throws, and for a status that is not a
  success the \<open>error\<close> text of the body or else "Processing failed" for an edit and "Add music
  failed" with the status for a mix, which are never empty. When the request succeeds, the
  history gains exactly the new version and the ledger exactly one entry, together.
\<close>

theorem dispatch_all_or_nothing:
  "(\<not> succeeded res \<longrightarrow>
      history (submitEdit_settled s prompt res) = history s \<and>
      promptHistory (submitEdit_settled s prompt res) = promptHistory s \<and>
      conversationState (submitEdit_settled s prompt res) = conversationState s \<and>
      (\<exists>m. edit_try res = Inl m \<and> error (submitEdit_settled s prompt res) = Some m) \<and>
      history (addSongToCurrentVideo_settled s sg res) = history s \<and>
      promptHistory (addSongToCurrentVideo_settled s sg res) = promptHistory s \<and>
      conversationState (addSongToCurrentVideo_settled s sg res) = conversationState s \<and>
      (\<exists>m. mix_try res = Inl m \<and> error (addSongToCurrentVideo_settled s sg res) = Some m) \<and>
      (conversationState s = get_prompt \<longrightarrow>
         conversationState (handle s (TextSubmit res)) = get_prompt \<and>
         history (handle s (TextSubmit res)) = history s \<and>
         promptHistory (handle s (TextSubmit res)) = promptHistory s) \<and>
      (conversationState s = get_prompt \<and> s = run es \<longrightarrow>
         conversationState (handle s (Utterance t res)) = get_prompt \<and>
         history (handle s (Utterance t res)) = history s \<and>
         promptHistory (handle s (Utterance t res)) = promptHistory s)) \<and>
   (succeeded res \<longrightarrow>
      (\<exists>b. res = HttpOk (BlobOk b) \<and>
           history (submitEdit_settled s prompt res) = history s @ [\<lparr>blob = b, url = urlCounter s\<rparr>] \<and>
           history (addSongToCurrentVideo_settled s sg res)
             = history s @ [\<lparr>blob = b, url = urlCounter s\<rparr>]) \<and>
      promptHistory (submitEdit_settled s prompt res) = promptHistory s @ [prompt] \<and>
      promptHistory (addSongToCurrentVideo_settled s sg res) = promptHistory s @ [songLedgerText sg]) \<and>
   error (submitEdit_settled s prompt (FetchRejects m)) = Some m \<and>
   error (submitEdit_settled s prompt (HttpError st (JsonThrows m))) = Some m \<and>
   error (submitEdit_settled s prompt (HttpError st (JsonNull m))) = Some m \<and>
   error (submitEdit_settled s prompt (HttpError st (JsonValue e)))
     = Some (case e of None \<Rightarrow> ''Processing failed''
             | Some x \<Rightarrow> if x = [] then ''Processing failed'' else x) \<and>
   error (submitEdit_settled s prompt (HttpError st (JsonValue e))) \<noteq> Some [] \<and>
   error (submitEdit_settled s prompt (HttpOk (BlobRejects m))) = Some m \<and>
   error (addSongToCurrentVideo_settled s sg (FetchRejects m)) = Some m \<and>
   error (addSongToCurrentVideo_settled s sg (HttpError st (JsonThrows m)))
     = Some (''Add music failed ('' @ showNat st @ '')'') \<and>
   error (addSongToCurrentVideo_settled s sg (HttpError st (JsonNull m))) = Some m \<and>
   error (addSongToCurrentVideo_settled s sg (HttpError st (JsonValue e)))
     = Some (case e of None \<Rightarrow> ''Add music failed ('' @ showNat st @ '')''
             | Some x \<Rightarrow> if x = [] then ''Add music failed ('' @ showNat st @ '')'' else x) \<and>
   error (addSongToCurrentVideo_settled s sg (HttpError st (JsonThrows m))) \<noteq> Some [] \<and>
   error (addSongToCurrentVideo_settled s sg (HttpError st (JsonValue e))) \<noteq> Some [] \<and>
   error (addSongToCurrentVideo_settled s sg (HttpOk (BlobRejects m))) = Some m"
proof -
  have pinned_edit:
    "error (submitEdit_settled s prompt (FetchRejects m)) = Some m"
    "error (submitEdit_settled s prompt (HttpError st (JsonThrows m))) = Some m"
    "error (submitEdit_settled s prompt (HttpError st (JsonNull m))) = Some m"
    "error (submitEdit_settled s prompt (HttpError st (JsonValue e)))
       = Some (case e of None \<Rightarrow> ''Processing failed''
               | Some x \<Rightarrow> if x = [] then ''Processing failed'' else x)"
    "error (submitEdit_settled s prompt (HttpError st (JsonValue e))) \<noteq> Some []"
    "error (submitEdit_settled s prompt (HttpOk (BlobRejects m))) = Some m"
    by (simp_all add: submitEdit_settled_def edit_try_def or_else_def split: option.splits)
  have pinned_mix:
    "error (addSongToCurrentVideo_settled s sg (FetchRejects m)) = Some m"
    "error (addSongToCurrentVideo_settled s sg (HttpError st (JsonThrows m)))
       = Some (''Add music failed ('' @ showNat st @ '')'')"
    "error (addSongToCurrentVideo_settled s sg (HttpError st (JsonNull m))) = Some m"
    "error (addSongToCurrentVideo_settled s sg (HttpError st (JsonValue e)))
       = Some (case e of None \<Rightarrow> ''Add music failed ('' @ showNat st @ '')''
               | Some x \<Rightarrow> if x = [] then ''Add music failed ('' @ showNat st @ '')'' else x)"
    "error (addSongToCurrentVideo_settled s sg (HttpError st (JsonThrows m))) \<noteq> Some []"
    "error (addSongToCurrentVideo_settled s sg (HttpError st (JsonValue e))) \<noteq> Some []"
    "error (addSongToCurrentVideo_settled s sg (HttpOk (BlobRejects m))) = Some m"
    by (simp_all add: addSongToCurrentVideo_settled_def mix_try_def or_else_def
        split: option.splits)
  have outcome:
    "(\<not> succeeded res \<longrightarrow>
      history (submitEdit_settled s prompt res) = history s \<and>
      promptHistory (submitEdit_settled s prompt res) = promptHistory s \<and>
      conversationState (submitEdit_settled s prompt res) = conversationState s \<and>
      (\<exists>m. edit_try res = Inl m \<and> error (submitEdit_settled s prompt res) = Some m) \<and>
      history (addSongToCurrentVideo_settled s sg res) = history s \<and>
      promptHistory (addSongToCurrentVideo_settled s sg res) = promptHistory s \<and>
      conversationState (addSongToCurrentVideo_settled s sg res) = conversationState s \<and>
      (\<exists>m. mix_try res = Inl m \<and> error (addSongToCurrentVideo_settled s sg res) = Some m) \<and>
      (conversationState s = get_prompt \<longrightarrow>
         conversationState (handle s (TextSubmit res)) = get_prompt \<and>
         history (handle s (TextSubmit res)) = history s \<and>
         promptHistory (handle s (TextSubmit res)) = promptHistory s) \<and>
      (conversationState s = get_prompt \<and> s = run es \<longrightarrow>
         conversationState (handle s (Utterance t res)) = get_prompt \<and>
         history (handle s (Utterance t res)) = history s \<and>
         promptHistory (handle s (Utterance t res)) = promptHistory s)) \<and>
   (succeeded res \<longrightarrow>
      (\<exists>b. res = HttpOk (BlobOk b) \<and>
           history (submitEdit_settled s prompt res) = history s @ [\<lparr>blob = b, url = urlCounter s\<rparr>] \<and>
           history (addSongToCurrentVideo_settled s sg res)
             = history s @ [\<lparr>blob = b, url = urlCounter s\<rparr>]) \<and>
      promptHistory (submitEdit_settled s prompt res) = promptHistory s @ [prompt] \<and>
      promptHistory (addSongToCurrentVideo_settled s sg res) = promptHistory s @ [songLedgerText sg])"
  proof (cases "succeeded res")
    case True
    then obtain b where "res = HttpOk (BlobOk b)" "edit_try res = Inr b" "mix_try res = Inr b"
      using succeeded_edit_try by blast
    with True show ?thesis
      using submitEdit_settled_success [of res b s prompt] addSong_settled_success [of res b s sg]
      by simp
  next
    case False
    then obtain m1 m2 where m: "edit_try res = Inl m1" "mix_try res = Inl m2"
      using failed_edit_try by blast
    have core:
      "history (submitEdit_settled s prompt res) = history s \<and>
       promptHistory (submitEdit_settled s prompt res) = promptHistory s \<and>
       conversationState (submitEdit_settled s prompt res) = conversationState s \<and>
       (\<exists>m. edit_try res = Inl m \<and> error (submitEdit_settled s prompt res) = Some m) \<and>
       history (addSongToCurrentVideo_settled s sg res) = history s \<and>
       promptHistory (addSongToCurrentVideo_settled s sg res) = promptHistory s \<and>
       conversationState (addSongToCurrentVideo_settled s sg res) = conversationState s \<and>
       (\<exists>m. mix_try res = Inl m \<and> error (addSongToCurrentVideo_settled s sg res) = Some m)"
      using m by (simp add: submitEdit_settled_failure addSong_settled_failure)
    have typed:
      "conversationState s = get_prompt \<longrightarrow>
         conversationState (handle s (TextSubmit res)) = get_prompt \<and>
         history (handle s (TextSubmit res)) = history s \<and>
         promptHistory (handle s (TextSubmit res)) = promptHistory s"
      using failed_text_submit [OF False] by blast
    have spoken:
      "conversationState s = get_prompt \<and> s = run es \<longrightarrow>
         conversationState (handle s (Utterance t res)) = get_prompt \<and>
         history (handle s (Utterance t res)) = history s \<and>
         promptHistory (handle s (Utterance t res)) = promptHistory s"
      using failed_utterance [OF False] closure_inv_run [of es] by blast
    show ?thesis
      using False core typed spoken by blast
  qed
  show ?thesis
    using outcome pinned_edit pinned_mix by blast
qed

text \<open>
  C5 on a failing and on a succeeding edit of the uploaded video, and on a mix that fails
  with a malformed body, with an \<open>error\<close> text, and with a body that has none.
\<close>

theorem dispatch_all_or_nothing_witness:
  "\<not> succeeded (HttpError 500 (JsonValue (Some ''ffmpeg failed''))) \<and>
   conversationState demo_uploaded = get_prompt \<and>
   history (handle demo_uploaded (Utterance ''trim start'' (HttpError 500 (JsonValue (Some ''ffmpeg failed'')))))
     = history demo_uploaded \<and>
   error (submitEdit_settled demo_uploaded ''trim start'' (HttpError 500 (JsonValue (Some ''ffmpeg failed''))))
     = Some ''ffmpeg failed'' \<and>
   error (submitEdit_settled demo_uploaded ''trim start'' (HttpError 500 (JsonValue None)))
     = Some ''Processing failed'' \<and>
   error (addSongToCurrentVideo_settled demo_uploaded demo_song (HttpError 500 (JsonThrows ''Unexpected token'')))
     = Some ''Add music failed (500)'' \<and>
   error (addSongToCurrentVideo_settled demo_uploaded demo_song (HttpError 404 (JsonValue None)))
     = Some ''Add music failed (404)'' \<and>
   error (addSongToCurrentVideo_settled demo_uploaded demo_song (HttpError 400 (JsonValue (Some ''bad song url''))))
     = Some ''bad song url'' \<and>
   history (addSongToCurrentVideo_settled demo_uploaded demo_song (HttpError 400 (JsonValue (Some ''bad song url''))))
     = history demo_uploaded \<and>
   succeeded (HttpOk (BlobOk demo_edited)) \<and>
   promptHistory (submitEdit_settled demo_uploaded ''trim start'' (HttpOk (BlobOk demo_edited)))
     = promptHistory demo_uploaded @ [''trim start'']"
proof -
  have f: "\<not> succeeded (HttpError 500 (JsonValue (Some ''ffmpeg failed'')))"
    "\<not> succeeded (HttpError 400 (JsonValue (Some ''bad song url'')))"
    by (simp_all add: succeeded_def)
  have g: "succeeded (HttpOk (BlobOk demo_edited))"
    by (simp add: succeeded_def)
  have p: "conversationState demo_uploaded = get_prompt"
    by (simp add: demo_uploaded_eval)
  have n: "showNat 500 = ''500''" "showNat 404 = ''404''"
    by code_simp+
  show ?thesis
    using f g p
      dispatch_all_or_nothing [of "HttpError 500 (JsonValue (Some ''ffmpeg failed''))"
        demo_uploaded "''trim start''" demo_song "[FileChange (Some demo_video)]" "''trim start''"
        "[]" 500 "Some ''ffmpeg failed''"]
      dispatch_all_or_nothing [of "HttpOk (BlobOk demo_edited)"
        demo_uploaded "''trim start''" demo_song "[]" "''trim start''" "''Unexpected token''" 500
        None]
      dispatch_all_or_nothing [of "HttpError 400 (JsonValue (Some ''bad song url''))"
        demo_uploaded "''trim start''" demo_song "[]" "''trim start''" "[]" 400
        "Some ''bad song url''"]
      dispatch_all_or_nothing [of "HttpOk (BlobOk demo_edited)"
        demo_uploaded "''trim start''" demo_song "[]" "''trim start''" "[]" 404 None]
    by (simp add: n demo_uploaded_def)
qed

section \<open>Restore\<close>



section \<open>The cumulative instruction\<close>

text \<open>
  The handler of the latest render, which typed input runs, posts an instruction submitted
  in \<open>get_prompt\<close> verbatim when the ledger is empty, and otherwise as "Previous edits: ",
  the ledger joined by ". ", ". Additional edit: " and the instruction.
\<close>

lemma instruction_of_latest_render:
  "conversationState s = get_prompt \<Longrightarrow> history s \<noteq> [] \<Longrightarrow>
   snd (handleUserInput s t) =
     Some (EditRequest (blob (last (history s))) (upload_name (blob (last (history s))))
       (if promptHistory s = [] then t
        else ''Previous edits: '' @ join ''. '' (promptHistory s) @ ''. Additional edit: '' @ t))"
  by (simp add: handleUserInput_live submitEdit_begin_live fullPrompt_def)

text \<open>
  So on the ledger "trim start", "add caption" the instruction "speed up" is posted as the
  text of the specification, and on the empty ledger "trim start" is posted as it is.
\<close>

lemma instruction_of_latest_render_example:
  "conversationState demo_two_edits = get_prompt \<and> history demo_two_edits \<noteq> [] \<and>
   promptHistory demo_two_edits = [''trim start'', ''add caption''] \<and>
   user_prompt (the (snd (handleUserInput demo_two_edits ''speed up'')))
     = ''Previous edits: trim start. add caption. Additional edit: speed up'' \<and>
   promptHistory demo_uploaded = [] \<and>
   user_prompt (the (snd (handleUserInput demo_uploaded ''trim start''))) = ''trim start''"
  using instruction_of_latest_render [of demo_two_edits "''speed up''"]
    instruction_of_latest_render [of demo_uploaded "''trim start''"]
  by (simp add: demo_two_edits_eval demo_uploaded_eval)

text \<open>
  C7 asks this of every instruction submitted in \<open>get_prompt\<close>. A spoken instruction runs
  the \<open>onresult\<close> installed when the phase last changed. After an edit, a request for more
  and a click on the restore button, the phase is \<open>get_prompt\<close>, the history holds the upload
  alone and the ledger is empty, so "speed up" should be posted verbatim on the upload, as
  the typed path does. Spoken, it is posted on the removed version as "Previous edits: trim
  start. Additional edit: speed up".
\<close>

theorem spoken_instruction_reads_stale_ledger:
  "conversationState demo_restored = get_prompt \<and>
   history demo_restored = [\<lparr>blob = demo_video, url = 0\<rparr>] \<and>
   promptHistory demo_restored = [] \<and>
   snd (onresult demo_restored ''speed up'')
     = Some (EditRequest demo_edited ''video.mp4''
               ''Previous edits: trim start. Additional edit: speed up'') \<and>
   snd (handleUserInput demo_restored ''speed up'')
     = Some (EditRequest demo_video ''clip.mp4'' ''speed up'')"
  by code_simp

section \<open>Object URLs of removed versions\<close>

text \<open>
  C8 asks that the object URL of a version is revoked whenever the version leaves the
  history. \<open>restorePrevious\<close> does so. The reset by "done" and a new upload do not: on the
  session with versions at URLs 0 and 1, both URLs are still live after either.
\<close>

theorem removed_entries_keep_live_urls:
  "map url (history demo_review) = [0, 1] \<and>
   history (fst (handleUserInput demo_review ''done'')) = [] \<and>
   objectUrls (fst (handleUserInput demo_review ''done'')) = [0, 1] \<and>
   history (handleFileChange demo_review (Some demo_video)) = [\<lparr>blob = demo_video, url = 2\<rparr>] \<and>
   objectUrls (handleFileChange demo_review (Some demo_video)) = [0, 1, 2] \<and>
   history (restorePrevious demo_review) = [\<lparr>blob = demo_video, url = 0\<rparr>] \<and>
   objectUrls (restorePrevious demo_review) = [0]"
  by code_simp

section \<open>Speech output\<close>

text \<open>
  C9, as stated: a failed TTS request is only logged and never shown to the user. It sets
  \<open>error\<close>, which the sheets display.
\<close>

theorem tts_request_failure_sets_error:
  "error mounted = None \<and>
   error (run [TtsSettles (TtsRejects ''Network Error'' None) PlayOk])
     = Some ''TTS request failed: Network Error''"
  by code_simp

text \<open>
  C9, amended: no outcome of a TTS request changes the phase, the history, the ledger, the
  transcript or the pending flag. A response that cannot be decoded or played is only
  logged and leaves \<open>error\<close> alone; a request that fails is logged and also sets \<open>error\<close> to
  "TTS request failed: " and the message.
\<close>

theorem tts_never_moves_the_session:
  "conversationState (step s (TtsSettles r pb)) = conversationState s \<and>
   history (step s (TtsSettles r pb)) = history s \<and>
   promptHistory (step s (TtsSettles r pb)) = promptHistory s \<and>
   messages (step s (TtsSettles r pb)) = messages s \<and>
   uploading (step s (TtsSettles r pb)) = uploading s \<and>
   error (step s (TtsSettles (TtsResolves a m) pb)) = error s \<and>
   error (step s (TtsSettles (TtsRejects msg srv) pb))
     = Some (''TTS request failed: '' @ or_else srv msg) \<and>
   console (step s (TtsSettles (TtsRejects msg srv) pb))
     = console s @ [console_error ''TTS request failed''] \<and>
   (b64 \<noteq> [] \<longrightarrow>
      console (step s (TtsSettles (TtsResolves (Some b64) m) (PlayRejects e)))
        = console s @ [console_warn ''Playback blocked or failed:''] \<and>
      console (step s (TtsSettles (TtsResolves (Some b64) m) (AtobThrows e)))
        = console s @ [console_error ''addAIMessage: TTS/playback failed''])"
proof -
  have st: "step s (TtsSettles r' pb') = ttsSettled s r' pb'" for r' pb'
    by (simp add: step_def Let_def ttsSettled_keeps)
  have res: "error (ttsSettled s (TtsResolves a m) pb) = error s"
    by (auto simp: ttsSettled_def requestServerTTS_def playBase64Audio_def createObjectURL_def
        split: playback.splits)
  have rej: "ttsSettled s (TtsRejects msg srv) pb =
      s\<lparr>console := console s @ [console_error ''TTS request failed''],
        error := Some (''TTS request failed: '' @ or_else srv msg)\<rparr>"
    by (simp add: ttsSettled_def requestServerTTS_def)
  have logs: "b64 \<noteq> [] \<Longrightarrow>
      console (ttsSettled s (TtsResolves (Some b64) m) (PlayRejects e))
        = console s @ [console_warn ''Playback blocked or failed:''] \<and>
      console (ttsSettled s (TtsResolves (Some b64) m) (AtobThrows e))
        = console s @ [console_error ''addAIMessage: TTS/playback failed'']"
    by (simp add: ttsSettled_def requestServerTTS_def playBase64Audio_def createObjectURL_def
        or_else_def)
  show ?thesis
    using res logs by (simp add: st ttsSettled_keeps rej)
qed

text \<open>The amended C9 when the browser refuses to play the audio.\<close>

theorem tts_never_moves_the_session_witness:
  "''QUJD'' \<noteq> [] \<and>
   console (step mounted (TtsSettles (TtsResolves (Some ''QUJD'') None) (PlayRejects ''NotAllowedError'')))
     = [console_warn ''Playback blocked or failed:''] \<and>
   error (step mounted (TtsSettles (TtsResolves (Some ''QUJD'') None) (PlayRejects ''NotAllowedError'')))
     = None"
proof -
  have c: "console mounted = []" "error mounted = None" by code_simp+
  show ?thesis
    using tts_never_moves_the_session [of mounted "TtsResolves (Some ''QUJD'') None"
        "PlayRejects ''NotAllowedError''" "Some ''QUJD''" None "[]" None "''QUJD''"
        "''NotAllowedError''"]
    by (simp add: c)
qed

section \<open>The ledger entry of a song\<close>

text \<open>
  C10 asks for "Added song: ", the title, an em dash (U+2014) between single spaces, and
  the artist. The literal in the source holds U+00E2 U+20AC U+201D where the dash should
  be, so that is what the ledger receives.
\<close>

theorem song_ledger_text_is_not_an_em_dash:
  "promptHistory (run [FileChange (Some demo_video), AddSong demo_song (HttpOk (BlobOk demo_edited))])
     = [''Added song: Sahiba''
          @ [CHR 0x20, CHR 0xC3, CHR 0xA2, CHR 0xE2, CHR 0x82, CHR 0xAC, CHR 0xE2, CHR 0x80,
             CHR 0x9D, CHR 0x20]
          @ ''Aditya Rikhari''] \<and>
   songLedgerText demo_song
     \<noteq> ''Added song: '' @ title demo_song @ [CHR 0x20, CHR 0xE2, CHR 0x80, CHR 0x94, CHR 0x20]
         @ artist demo_song"
  by code_simp

end
